theory Spec2Isabelle
  imports Complex_Main
begin

section \<open>JavaScript numbers\<close>

text \<open>
  A JavaScript number is an IEEE 754 double: a finite value, an infinity or \<open>NaN\<close>. A
  finite number is represented by its exact rational value, and every arithmetic operation
  rounds its exact result to the nearest double, ties to the even significand. The two
  zeros are identified: the code tests every divisor with \<open>=== 0\<close> before it divides, and
  nothing else in it tells \<open>-0\<close> from \<open>+0\<close>.
\<close>

datatype number = Finite rat | PosInf | NegInf | NaN

text \<open>The integer \<open>k\<close> with \<open>2^k \<le> a < 2^(k+1)\<close>, for a positive \<open>a\<close>.\<close>

function floorLog2 :: "rat \<Rightarrow> int" where
  "floorLog2 a =
     (if a \<le> 0 then 0
      else if 2 \<le> a then floorLog2 (a / 2) + 1
      else if a < 1 then floorLog2 (a * 2) - 1
      else 0)"
  by pat_completeness auto
termination
proof (relation "measure (\<lambda>a. if 1 \<le> a then nat \<lfloor>a\<rfloor> else nat \<lceil>1 / a\<rceil>)")
  show "wf (measure (\<lambda>a::rat. if 1 \<le> a then nat \<lfloor>a\<rfloor> else nat \<lceil>1 / a\<rceil>))"
    by simp
next
  fix a :: rat
  assume "\<not> a \<le> 0" and big: "2 \<le> a"
  have "\<lfloor>a / 2\<rfloor> < \<lfloor>a\<rfloor>" using big by linarith
  moreover have "1 \<le> a / 2" using big by simp
  moreover have "0 < \<lfloor>a\<rfloor>" using big by linarith
  ultimately show "(a / 2, a) \<in> measure (\<lambda>a. if 1 \<le> a then nat \<lfloor>a\<rfloor> else nat \<lceil>1 / a\<rceil>)"
    using big by simp
next
  fix a :: rat
  assume pos: "\<not> a \<le> 0" and "\<not> 2 \<le> a" and small: "a < 1"
  show "(a * 2, a) \<in> measure (\<lambda>a. if 1 \<le> a then nat \<lfloor>a\<rfloor> else nat \<lceil>1 / a\<rceil>)"
  proof (cases "1 \<le> a * 2")
    case True
    have "a * 2 < 2" using small by simp
    then have "\<lfloor>a * 2\<rfloor> \<le> 1" by linarith
    moreover have "1 < 1 / a" using pos small by (simp add: field_simps)
    then have "2 \<le> \<lceil>1 / a\<rceil>" by linarith
    ultimately have "\<lfloor>a * 2\<rfloor> < \<lceil>1 / a\<rceil>" by linarith
    then show ?thesis using True small by simp
  next
    case False
    have half: "1 / (a * 2) = (1 / a) / 2" by simp
    have two: "2 < 1 / a" using pos False by (simp add: field_simps)
    from half two have "\<lceil>1 / (a * 2)\<rceil> < \<lceil>1 / a\<rceil>" by linarith
    moreover have "0 < \<lceil>1 / a\<rceil>" using two by linarith
    ultimately show ?thesis using False small by simp
  qed
qed

declare floorLog2.simps [simp del]

definition pow2 :: "int \<Rightarrow> rat" where
  "pow2 k = (if 0 \<le> k then 2 ^ nat k else 1 / 2 ^ nat (- k))"

text \<open>The nearest integer, the even one of the two on a tie.\<close>

definition roundHalfEven :: "rat \<Rightarrow> int" where
  "roundHalfEven y =
     (if y - of_int \<lfloor>y\<rfloor> < 1 / 2 then \<lfloor>y\<rfloor>
      else if 1 / 2 < y - of_int \<lfloor>y\<rfloor> then \<lfloor>y\<rfloor> + 1
      else if even \<lfloor>y\<rfloor> then \<lfloor>y\<rfloor>
      else \<lfloor>y\<rfloor> + 1)"

text \<open>
  Doubles have a significand of 53 bits: around a positive \<open>a\<close> they are the multiples of
  \<open>2^e\<close>, where \<open>e\<close> is the exponent of \<open>a\<close> less 52, and at least -1074 (the subnormal
  range). \<open>nearest64 a\<close> is the multiple nearest to \<open>a\<close>; from \<open>2^1024\<close> on the result
  overflows to an infinity.
\<close>

definition exponent64 :: "rat \<Rightarrow> int" where
  "exponent64 a = max (floorLog2 a - 52) (- 1074)"

definition nearest64 :: "rat \<Rightarrow> rat" where
  "nearest64 a = of_int (roundHalfEven (a / pow2 (exponent64 a))) * pow2 (exponent64 a)"

definition round64 :: "rat \<Rightarrow> number" where
  "round64 x =
     (if x = 0 then Finite 0
      else if pow2 1024 \<le> nearest64 \<bar>x\<bar> then (if 0 < x then PosInf else NegInf)
      else Finite (if 0 < x then nearest64 \<bar>x\<bar> else - nearest64 \<bar>x\<bar>))"

text \<open>
  Addition, multiplication and division of numbers, with the special values as IEEE 754
  has them.
\<close>

instantiation number :: "{zero, plus, times, inverse}"
begin

definition zero_number :: number where
  "zero_number = Finite 0"

fun plus_number :: "number \<Rightarrow> number \<Rightarrow> number" where
  "plus_number (Finite x) (Finite y) = round64 (x + y)"
| "plus_number NaN b = NaN"
| "plus_number a NaN = NaN"
| "plus_number PosInf NegInf = NaN"
| "plus_number NegInf PosInf = NaN"
| "plus_number PosInf b = PosInf"
| "plus_number NegInf b = NegInf"
| "plus_number a PosInf = PosInf"
| "plus_number a NegInf = NegInf"

fun times_number :: "number \<Rightarrow> number \<Rightarrow> number" where
  "times_number (Finite x) (Finite y) = round64 (x * y)"
| "times_number NaN b = NaN"
| "times_number a NaN = NaN"
| "times_number (Finite x) PosInf = (if x = 0 then NaN else if 0 < x then PosInf else NegInf)"
| "times_number (Finite x) NegInf = (if x = 0 then NaN else if 0 < x then NegInf else PosInf)"
| "times_number PosInf (Finite y) = (if y = 0 then NaN else if 0 < y then PosInf else NegInf)"
| "times_number NegInf (Finite y) = (if y = 0 then NaN else if 0 < y then NegInf else PosInf)"
| "times_number PosInf PosInf = PosInf"
| "times_number NegInf NegInf = PosInf"
| "times_number PosInf NegInf = NegInf"
| "times_number NegInf PosInf = NegInf"

fun divide_number :: "number \<Rightarrow> number \<Rightarrow> number" where
  "divide_number (Finite x) (Finite y) =
     (if y = 0 then (if x = 0 then NaN else if 0 < x then PosInf else NegInf)
      else round64 (x / y))"
| "divide_number NaN b = NaN"
| "divide_number a NaN = NaN"
| "divide_number (Finite x) b = Finite 0"
| "divide_number PosInf (Finite y) = (if 0 \<le> y then PosInf else NegInf)"
| "divide_number NegInf (Finite y) = (if 0 \<le> y then NegInf else PosInf)"
| "divide_number a b = NaN"

definition inverse_number :: "number \<Rightarrow> number" where
  "inverse_number a = divide (Finite 1) a"

instance ..

end

text \<open>
  A decimal literal of the source, and a decimal string read by \<open>parseFloat\<close> or
  \<open>JSON.parse\<close>, denote the double nearest to the decimal.
\<close>

definition lit :: "rat \<Rightarrow> number" where
  "lit r = round64 r"

text \<open>The numbers that count as false in a condition and in \<open>a || b\<close>.\<close>

definition falsy :: "number \<Rightarrow> bool" where
  "falsy x \<longleftrightarrow> x = 0 \<or> x = NaN"


section \<open>Data model (types.ts)\<close>

datatype CalculationMode = Standard4 | Standard5

record Course =
  id_course :: string
  code :: string
  title :: string
  credits :: number
  grade :: string

record Semester =
  id_semester :: string
  name :: string
  courses :: "Course list"
  gpa :: number

record GradeScaleItem =
  grade_item :: string
  point :: number


section \<open>Grade scales and point lookup (constants.ts)\<close>

definition SCALE_4_0 :: "GradeScaleItem list" where
  "SCALE_4_0 =
     [\<lparr>grade_item = ''A'', point = lit 4\<rparr>,
      \<lparr>grade_item = ''A-'', point = lit (37 / 10)\<rparr>,
      \<lparr>grade_item = ''B+'', point = lit (33 / 10)\<rparr>,
      \<lparr>grade_item = ''B'', point = lit 3\<rparr>,
      \<lparr>grade_item = ''B-'', point = lit (27 / 10)\<rparr>,
      \<lparr>grade_item = ''C+'', point = lit (23 / 10)\<rparr>,
      \<lparr>grade_item = ''C'', point = lit 2\<rparr>,
      \<lparr>grade_item = ''C-'', point = lit (17 / 10)\<rparr>,
      \<lparr>grade_item = ''D+'', point = lit (13 / 10)\<rparr>,
      \<lparr>grade_item = ''D'', point = lit 1\<rparr>,
      \<lparr>grade_item = ''F'', point = lit 0\<rparr>]"

definition SCALE_5_0 :: "GradeScaleItem list" where
  "SCALE_5_0 =
     [\<lparr>grade_item = ''A'', point = lit 5\<rparr>,
      \<lparr>grade_item = ''B'', point = lit 4\<rparr>,
      \<lparr>grade_item = ''C'', point = lit 3\<rparr>,
      \<lparr>grade_item = ''D'', point = lit 2\<rparr>,
      \<lparr>grade_item = ''E'', point = lit 1\<rparr>,
      \<lparr>grade_item = ''F'', point = lit 0\<rparr>]"

text \<open>The scale a mode selects: \<open>mode === CalculationMode.Standard5 ? SCALE_5_0 : SCALE_4_0\<close>.\<close>

definition activeScale :: "CalculationMode \<Rightarrow> GradeScaleItem list" where
  "activeScale mode = (if mode = Standard5 then SCALE_5_0 else SCALE_4_0)"

text \<open>
  \<open>getPoint\<close>: \<open>Array.prototype.find\<close> yields the first item whose grade is the given
  one, or \<open>undefined\<close> (here \<open>None\<close>); the result is the item's point, or 0 when the item
  is falsy.
\<close>

definition getPoint :: "string \<Rightarrow> CalculationMode \<Rightarrow> number" where
  "getPoint g mode =
     (let scale = (if mode = Standard5 then SCALE_5_0 else SCALE_4_0);
          item = find (\<lambda>s. grade_item s = g) scale
      in case item of Some s \<Rightarrow> point s | None \<Rightarrow> 0)"


section \<open>GPA and CGPA (App.tsx)\<close>

text \<open>
  \<open>parseFloat(x.toFixed(2))\<close> as one numeric function. For a finite \<open>x\<close> below
  \<open>10^21\<close> in absolute value, \<open>toFixed(2)\<close> works on the exact absolute value of the
  double, takes the integer \<open>n\<close> for which \<open>n / 100 - x\<close> is closest to zero (the larger
  \<open>n\<close> on a tie) and restores the sign; \<open>parseFloat\<close> reads the decimal string back as
  the nearest double. From \<open>10^21\<close> on, and for the infinities and \<open>NaN\<close>, \<open>toFixed\<close>
  prints the number itself and \<open>parseFloat\<close> reads the same number back.
\<close>

definition toFixed2 :: "number \<Rightarrow> number" where
  "toFixed2 x =
     (case x of
        Finite r \<Rightarrow>
          if 10 ^ 21 \<le> \<bar>r\<bar> then Finite r
          else if r < 0 then lit (- (of_int \<lfloor>- r * 100 + 1 / 2\<rfloor> / 100))
          else lit (of_int \<lfloor>r * 100 + 1 / 2\<rfloor> / 100)
      | PosInf \<Rightarrow> PosInf
      | NegInf \<Rightarrow> NegInf
      | NaN \<Rightarrow> NaN)"

text \<open>\<open>calculateSemesterGPA\<close>: an early return on the empty list, then two reductions.\<close>

definition calculateSemesterGPA :: "CalculationMode \<Rightarrow> Course list \<Rightarrow> number" where
  "calculateSemesterGPA mode cs =
     (if length cs = 0 then 0
      else
        let totalPoints = foldl (\<lambda>sum c. sum + getPoint (grade c) mode * credits c) 0 cs;
            totalCredits = foldl (\<lambda>sum c. sum + credits c) 0 cs
        in if totalCredits = 0 then 0 else toFixed2 (totalPoints / totalCredits))"

text \<open>
  The body of the inner \<open>forEach\<close> shared by \<open>cgpa\<close> and \<open>chartData\<close>: both running
  totals are updated for one course. The state is the pair (points, credits).
\<close>

definition addCourse :: "CalculationMode \<Rightarrow> Course \<Rightarrow> number \<times> number \<Rightarrow> number \<times> number" where
  "addCourse mode c acc =
     (fst acc + getPoint (grade c) mode * credits c, snd acc + credits c)"

text \<open>The two nested \<open>forEach\<close> loops of \<open>cgpa\<close>, returning (totalPoints, totalCredits).\<close>

definition cgpaTotals :: "CalculationMode \<Rightarrow> Semester list \<Rightarrow> number \<times> number" where
  "cgpaTotals mode semesters =
     fold (\<lambda>sem acc. fold (addCourse mode) (courses sem) acc) semesters (0, 0)"

definition cgpa :: "CalculationMode \<Rightarrow> Semester list \<Rightarrow> number" where
  "cgpa mode semesters =
     (let totalPoints = fst (cgpaTotals mode semesters);
          totalCredits = snd (cgpaTotals mode semesters)
      in if totalCredits = 0 then 0 else toFixed2 (totalPoints / totalCredits))"

record ChartPoint =
  name_chart :: string
  semGPA :: number
  cgpa_chart :: number

text \<open>
  \<open>chartData\<close>: \<open>semesters.map\<close> with the two cumulative counters living outside the
  callback; the counters are threaded through the recursion.
\<close>

fun chartDataFrom :: "CalculationMode \<Rightarrow> number \<times> number \<Rightarrow> Semester list \<Rightarrow> ChartPoint list" where
  "chartDataFrom mode acc [] = []"
| "chartDataFrom mode acc (sem # rest) =
     (let acc' = fold (addCourse mode) (courses sem) acc;
          cumulativeGPA = (if snd acc' = 0 then 0 else fst acc' / snd acc')
      in \<lparr>name_chart = name sem, semGPA = gpa sem, cgpa_chart = toFixed2 cumulativeGPA\<rparr>
         # chartDataFrom mode acc' rest)"

definition chartData :: "CalculationMode \<Rightarrow> Semester list \<Rightarrow> ChartPoint list" where
  "chartData mode semesters = chartDataFrom mode (0, 0) semesters"


section \<open>Strings of numbers\<close>

text \<open>
  The decimal rendering of an integer inside a template literal
  (\<open>`parsed-${Date.now()}-${index}`\<close>): digits without leading zeros, a minus sign for
  a negative number.
\<close>

definition digitChar :: "nat \<Rightarrow> char" where
  "digitChar d = ''0123456789'' ! d"

function showNat :: "nat \<Rightarrow> string" where
  "showNat n = (if n < 10 then [digitChar n] else showNat (n div 10) @ [digitChar (n mod 10)])"
  by pat_completeness auto
termination
  by (relation "measure (\<lambda>n. n)") auto

declare showNat.simps [simp del]

definition showInt :: "int \<Rightarrow> string" where
  "showInt i = (if i < 0 then CHR ''-'' # showNat (nat (- i)) else showNat (nat i))"


section \<open>The AI service wrappers (services/geminiService.ts)\<close>

text \<open>
  What a JavaScript function can throw here: an \<open>Error\<close> with its message, the
  \<open>SyntaxError\<close> of \<open>JSON.parse\<close>, a \<open>TypeError\<close> (of the \<open>URL\<close> constructor, or of a
  method call on a value that has no such method), or whatever the rejected promise of the
  AI client carries. A function that may throw returns \<open>Thrown + 'a\<close>.
\<close>

datatype Thrown = ErrorMsg string | SyntaxError | TypeError | Rejection string

text \<open>
  The outcome of \<open>await ai.models.generateContent(...)\<close>: the promise rejects, or it
  resolves to a response, of which the model keeps the part the caller reads. The request
  (model name, prompt, schema) only travels to the service, so it is not part of the model;
  the reply is an input.
\<close>

datatype 'a Reply = Rejected Thrown | Resolved 'a

text \<open>
  \<open>getAiClient\<close>: \<open>process.env.API_KEY\<close> is \<open>undefined\<close> (\<open>None\<close>) or a string; the
  empty string is falsy too. The client is represented by its key.
\<close>

definition getAiClient :: "string option \<Rightarrow> Thrown + string" where
  "getAiClient apiKey =
     (case apiKey of
        None \<Rightarrow> Inl (ErrorMsg ''API Key not found'')
      | Some k \<Rightarrow> if k = [] then Inl (ErrorMsg ''API Key not found'') else Inr k)"

subsection \<open>parseTranscriptImage\<close>

text \<open>
  An element of the parsed JSON array, as the response schema of the request types it:
  \<open>code\<close>, \<open>title\<close> and \<open>grade\<close> are strings, \<open>credits\<close> is a number, and a property
  that is absent or \<open>null\<close> is \<open>None\<close>.
\<close>

record RawCourse =
  raw_code :: "string option"
  raw_title :: "string option"
  raw_credits :: "number option"
  raw_grade :: "string option"

text \<open>
  \<open>a || d\<close> on a string-valued and on a number-valued property: the falsy values are
  \<open>undefined\<close>, \<open>null\<close>, the empty string, 0 and \<open>NaN\<close>.
\<close>

definition orString :: "string option \<Rightarrow> string \<Rightarrow> string" where
  "orString a d = (case a of None \<Rightarrow> d | Some v \<Rightarrow> if v = [] then d else v)"

definition orNumber :: "number option \<Rightarrow> number \<Rightarrow> number" where
  "orNumber a d = (case a of None \<Rightarrow> d | Some v \<Rightarrow> if falsy v then d else v)"

text \<open>
  The callback of \<open>rawData.map\<close>. \<open>Date.now()\<close> is read once per element; \<open>now index\<close>
  is the reading taken when the element at \<open>index\<close> is mapped.
\<close>

definition toCourse :: "(nat \<Rightarrow> int) \<Rightarrow> RawCourse \<Rightarrow> nat \<Rightarrow> Course" where
  "toCourse now c index =
     \<lparr>id_course = ''parsed-'' @ showInt (now index) @ ''-'' @ showNat index,
      code = orString (raw_code c) ''UNKNOWN'',
      title = orString (raw_title c) ''Parsed Course'',
      credits = orNumber (raw_credits c) (lit 3),
      grade = orString (raw_grade c) ''C''\<rparr>"

definition mapCourses :: "(nat \<Rightarrow> int) \<Rightarrow> RawCourse list \<Rightarrow> Course list" where
  "mapCourses now rawData =
     map (\<lambda>(c, index). toCourse now c index) (zip rawData [0..<length rawData])"

text \<open>
  \<open>parseTranscriptImage\<close>. The client is obtained before the \<open>try\<close>; inside it, the
  \<open>catch\<close> logs and rethrows. \<open>parse\<close> stands for \<open>JSON.parse\<close> followed by the \<open>map\<close>
  method lookup: it yields the array, or what is thrown when the text is not JSON
  (\<open>SyntaxError\<close>) or not an array (\<open>TypeError\<close>). The reply carries \<open>response.text\<close>.
\<close>

definition parseTranscriptImage ::
  "string option \<Rightarrow> string option Reply \<Rightarrow> (string \<Rightarrow> Thrown + RawCourse list) \<Rightarrow> (nat \<Rightarrow> int)
     \<Rightarrow> Thrown + Course list" where
  "parseTranscriptImage apiKey reply parse now =
     (case getAiClient apiKey of
        Inl e \<Rightarrow> Inl e
      | Inr ai \<Rightarrow>
          (case reply of
             Rejected e \<Rightarrow> Inl e
           | Resolved None \<Rightarrow> Inr []
           | Resolved (Some text) \<Rightarrow>
               if text = [] then Inr []
               else (case parse text of
                       Inl e \<Rightarrow> Inl e
                     | Inr rawData \<Rightarrow> Inr (mapCourses now rawData))))"

subsection \<open>findStudyResources\<close>

record StudyResource =
  title_res :: string
  uri :: string
  source :: string

text \<open>
  A grounding chunk: \<open>chunk.web\<close> may be absent, and so may its \<open>uri\<close> and \<open>title\<close>.
\<close>

record Web =
  web_uri :: "string option"
  web_title :: "string option"

record GroundingChunk =
  web :: "Web option"

text \<open>\<open>chunk.web?.uri\<close> and \<open>chunk.web?.title\<close>.\<close>

definition chunkUri :: "GroundingChunk \<Rightarrow> string option" where
  "chunkUri chunk = (case web chunk of None \<Rightarrow> None | Some w \<Rightarrow> web_uri w)"

definition chunkTitle :: "GroundingChunk \<Rightarrow> string option" where
  "chunkTitle chunk = (case web chunk of None \<Rightarrow> None | Some w \<Rightarrow> web_title w)"

definition truthy :: "string option \<Rightarrow> bool" where
  "truthy a = (case a of None \<Rightarrow> False | Some v \<Rightarrow> v \<noteq> [])"

text \<open>\<open>String.prototype.replace\<close> with a string pattern: the first occurrence only.\<close>

fun replaceFirst :: "string \<Rightarrow> string \<Rightarrow> string \<Rightarrow> string" where
  "replaceFirst pat rep [] = (if pat = [] then rep else [])"
| "replaceFirst pat rep (c # cs) =
     (if take (length pat) (c # cs) = pat then rep @ drop (length pat) (c # cs)
      else c # replaceFirst pat rep cs)"

text \<open>
  The \<open>forEach\<close> that fills \<open>resources\<close>. \<open>hostname u\<close> stands for
  \<open>new URL(u).hostname\<close>: the host name, or the \<open>TypeError\<close> of the constructor on a
  string that is not a URL, which leaves the loop.
\<close>

fun pushResources ::
  "(string \<Rightarrow> Thrown + string) \<Rightarrow> GroundingChunk list \<Rightarrow> StudyResource list
     \<Rightarrow> Thrown + StudyResource list" where
  "pushResources hostname [] resources = Inr resources"
| "pushResources hostname (chunk # rest) resources =
     (if truthy (chunkUri chunk) \<and> truthy (chunkTitle chunk) then
        (case hostname (the (chunkUri chunk)) of
           Inl e \<Rightarrow> Inl e
         | Inr host \<Rightarrow>
             pushResources hostname rest
               (resources @
                [\<lparr>title_res = the (chunkTitle chunk), uri = the (chunkUri chunk),
                  source = replaceFirst ''www.'' [] host\<rparr>]))
      else pushResources hostname rest resources)"

declare pushResources.simps(2) [simp del]

text \<open>\<open>Array.prototype.findIndex\<close>: the first index whose element satisfies, or -1.\<close>

fun findIndex :: "('a \<Rightarrow> bool) \<Rightarrow> 'a list \<Rightarrow> int" where
  "findIndex P [] = - 1"
| "findIndex P (x # xs) =
     (if P x then 0 else (let r = findIndex P xs in if r = - 1 then - 1 else r + 1))"

text \<open>
  \<open>Array.prototype.filter\<close> with the three-argument callback \<open>(v, i, a)\<close>: the elements
  from index \<open>i\<close> on are visited in order, \<open>a\<close> is the whole array.
\<close>

fun filterFrom :: "('a \<Rightarrow> nat \<Rightarrow> 'a list \<Rightarrow> bool) \<Rightarrow> 'a list \<Rightarrow> nat \<Rightarrow> 'a list \<Rightarrow> 'a list" where
  "filterFrom f a i [] = []"
| "filterFrom f a i (v # vs) =
     (if f v i a then v # filterFrom f a (Suc i) vs else filterFrom f a (Suc i) vs)"

definition filterIndexed :: "('a \<Rightarrow> nat \<Rightarrow> 'a list \<Rightarrow> bool) \<Rightarrow> 'a list \<Rightarrow> 'a list" where
  "filterIndexed f a = filterFrom f a 0 a"

text \<open>
  \<open>resources.filter((v, i, a) => a.findIndex(t => (t.uri === v.uri)) === i)\<close>.
\<close>

definition uniqueResources :: "StudyResource list \<Rightarrow> StudyResource list" where
  "uniqueResources resources =
     filterIndexed (\<lambda>v i a. findIndex (\<lambda>t. uri t = uri v) a = int i) resources"

text \<open>
  \<open>findStudyResources\<close>. The client is obtained before the \<open>try\<close>; inside it, every
  throw ends in the \<open>catch\<close>, which returns the empty list. The reply carries
  \<open>response.candidates?.[0]?.groundingMetadata?.groundingChunks\<close>.
\<close>

definition findStudyResources ::
  "string option \<Rightarrow> GroundingChunk list option Reply \<Rightarrow> (string \<Rightarrow> Thrown + string)
     \<Rightarrow> Thrown + StudyResource list" where
  "findStudyResources apiKey reply hostname =
     (case getAiClient apiKey of
        Inl e \<Rightarrow> Inl e
      | Inr ai \<Rightarrow>
          (case reply of
             Rejected e \<Rightarrow> Inr []
           | Resolved None \<Rightarrow> Inr []
           | Resolved (Some chunks) \<Rightarrow>
               (case pushResources hostname chunks [] of
                  Inl e \<Rightarrow> Inr []
                | Inr resources \<Rightarrow> Inr (take 5 (uniqueResources resources)))))"

subsection \<open>generateAcademicStrategy\<close>

datatype Sentiment = Positive | Neutral | Critical

record PlanStep =
  step :: string
  details :: string

record AIAnalysisResult =
  summary :: string
  recommendations :: "string list"
  projectedGPA :: string
  sentiment :: Sentiment
  strategicPlan :: "PlanStep list"
  careerPath :: "string option"
  potentialRoles :: "string list option"




section \<open>The course table (components/CourseList.tsx)\<close>

text \<open>
  \<open>parseInt(string)\<close> without a radix: leading white space (here the ASCII white space
  characters) is dropped, a sign is read,
  a \<open>0x\<close> or \<open>0X\<close> prefix selects radix 16 (radix 10 otherwise), and the longest prefix of
  digits of that radix is read as an integer; the result is the double nearest to the
  signed integer, and \<open>NaN\<close> when there is no digit.
\<close>

definition isWhiteSpace :: "char \<Rightarrow> bool" where
  "isWhiteSpace c \<longleftrightarrow>
     c \<in> {CHR 0x09, CHR 0x0A, CHR 0x0B, CHR 0x0C, CHR 0x0D, CHR '' ''}"

fun indexOf :: "'a \<Rightarrow> 'a list \<Rightarrow> nat option" where
  "indexOf c [] = None"
| "indexOf c (x # xs) =
     (if c = x then Some 0 else (case indexOf c xs of None \<Rightarrow> None | Some i \<Rightarrow> Some (Suc i)))"

definition digitValue :: "nat \<Rightarrow> char \<Rightarrow> nat option" where
  "digitValue radix c =
     (case indexOf c ''0123456789abcdefghijklmnopqrstuvwxyz'' of
        Some d \<Rightarrow> if d < radix then Some d else None
      | None \<Rightarrow>
          (case indexOf c ''0123456789ABCDEFGHIJKLMNOPQRSTUVWXYZ'' of
             Some d \<Rightarrow> if d < radix then Some d else None
           | None \<Rightarrow> None))"

definition parseInt :: "string \<Rightarrow> number" where
  "parseInt inputString =
     (let s = dropWhile isWhiteSpace inputString;
          sign = (if take 1 s = ''-'' then - 1 else (1::int));
          s = (if take 1 s = ''-'' \<or> take 1 s = ''+'' then drop 1 s else s);
          radix = (if take 2 s = ''0x'' \<or> take 2 s = ''0X'' then 16 else (10::nat));
          s = (if take 2 s = ''0x'' \<or> take 2 s = ''0X'' then drop 2 s else s);
          z = takeWhile (\<lambda>c. digitValue radix c \<noteq> None) s
      in if z = [] then NaN
         else lit (of_int (sign * int (foldl (\<lambda>n c. n * radix + the (digitValue radix c)) 0 z))))"

text \<open>
  \<open>handleAddCourse\<close>: the new course takes the first grade of the scale it is given;
  \<open>scale[0].grade\<close> on an empty scale is a \<open>TypeError\<close>. The result is the list passed to
  \<open>onUpdate\<close>.
\<close>

definition handleAddCourse ::
  "int \<Rightarrow> GradeScaleItem list \<Rightarrow> Course list \<Rightarrow> Thrown + Course list" where
  "handleAddCourse now scale cs =
     (case scale of
        [] \<Rightarrow> Inl TypeError
      | s # rest \<Rightarrow>
          Inr (cs @ [\<lparr>id_course = ''new-'' @ showInt now, code = [], title = [],
                       credits = lit 3, grade = grade_item s\<rparr>]))"

text \<open>
  \<open>handleChange\<close>: \<open>{ ...c, [field]: value }\<close> for the one course with the given id. The
  component calls it for the four editable fields.
\<close>

datatype FieldChange =
  ChangeCode string | ChangeTitle string | ChangeCredits number | ChangeGrade string

fun applyChange :: "FieldChange \<Rightarrow> Course \<Rightarrow> Course" where
  "applyChange (ChangeCode v) c = c\<lparr>code := v\<rparr>"
| "applyChange (ChangeTitle v) c = c\<lparr>title := v\<rparr>"
| "applyChange (ChangeCredits v) c = c\<lparr>credits := v\<rparr>"
| "applyChange (ChangeGrade v) c = c\<lparr>grade := v\<rparr>"

definition handleChange :: "string \<Rightarrow> FieldChange \<Rightarrow> Course list \<Rightarrow> Course list" where
  "handleChange i change cs = map (\<lambda>c. if id_course c = i then applyChange change c else c) cs"

definition handleRemove :: "string \<Rightarrow> Course list \<Rightarrow> Course list" where
  "handleRemove i cs = filter (\<lambda>c. id_course c \<noteq> i) cs"

text \<open>
  The \<open>onChange\<close> of the credits input (\<open>type="number" min="0" max="20"\<close>):
  \<open>handleChange(course.id, 'credits', parseInt(e.target.value) || 0)\<close>, where
  \<open>e.target.value\<close> is the text of the input.
\<close>

definition creditsChange :: "string \<Rightarrow> FieldChange" where
  "creditsChange v =
     ChangeCredits (if falsy (parseInt v) then 0 else parseInt v)"


section \<open>The application state and its handlers (App.tsx)\<close>

datatype ProcessingStatus = Idle | Scanning | Thinking | Searching | Complete | ErrorStatus

text \<open>
  The state of the \<open>App\<close> component that the handlers below read and write (the active
  tab and the target CGPA are left out: no modelled handler reads them).
\<close>

record AppState =
  st_mode :: CalculationMode
  st_semesters :: "Semester list"
  st_analysis :: "AIAnalysisResult option"
  st_status :: ProcessingStatus
  st_errorMessage :: "string option"
  st_resourceModalOpen :: bool
  st_activeResourceCourse :: "Course option"
  st_foundResources :: "StudyResource list"

definition initialState :: AppState where
  "initialState =
     \<lparr>st_mode = Standard4,
      st_semesters = [\<lparr>id_semester = ''sem-1'', name = ''Semester 1'', courses = [], gpa = 0\<rparr>],
      st_analysis = None,
      st_status = Idle,
      st_errorMessage = None,
      st_resourceModalOpen = False,
      st_activeResourceCourse = None,
      st_foundResources = []\<rparr>"

text \<open>
  \<open>handleUpdateCourses\<close>, \<open>addSemester\<close>, \<open>removeSemester\<close> and the inline \<open>onChange\<close> of
  the semester name, as functions on the semester list; \<open>calculateSemesterGPA\<close> reads the
  mode of the render in which the handler was created.
\<close>

definition handleUpdateCourses ::
  "CalculationMode \<Rightarrow> string \<Rightarrow> Course list \<Rightarrow> Semester list \<Rightarrow> Semester list" where
  "handleUpdateCourses mode semId updatedCourses prev =
     map (\<lambda>sem. if id_semester sem = semId
                then sem\<lparr>courses := updatedCourses,
                         gpa := calculateSemesterGPA mode updatedCourses\<rparr>
                else sem) prev"

definition addSemester :: "int \<Rightarrow> Semester list \<Rightarrow> Semester list" where
  "addSemester now sems =
     sems @ [\<lparr>id_semester = ''sem-'' @ showInt now,
               name = ''Semester '' @ showNat (length sems + 1),
               courses = [], gpa = 0\<rparr>]"

definition removeSemester :: "string \<Rightarrow> Semester list \<Rightarrow> Semester list" where
  "removeSemester i sems = filter (\<lambda>s. id_semester s \<noteq> i) sems"

definition renameSemester :: "string \<Rightarrow> string \<Rightarrow> Semester list \<Rightarrow> Semester list" where
  "renameSemester semId val prev =
     map (\<lambda>s. if id_semester s = semId then s\<lparr>name := val\<rparr> else s) prev"

text \<open>
  \<open>handleTranscriptUpload\<close>, for a chosen file: \<open>outcome\<close> is what
  \<open>await parseTranscriptImage(...)\<close> gives, a thrown value or the parsed courses. The
  upload and the arrival of its result are one step of the model.
\<close>

definition handleTranscriptUpload :: "int \<Rightarrow> Thrown + Course list \<Rightarrow> AppState \<Rightarrow> AppState" where
  "handleTranscriptUpload now outcome s =
     (let s1 = s\<lparr>st_status := Scanning, st_errorMessage := None\<rparr>
      in case outcome of
           Inr parsedCourses \<Rightarrow>
             if length parsedCourses > 0 then
               s1\<lparr>st_semesters :=
                     st_semesters s1 @
                       [\<lparr>id_semester = ''sem-import-'' @ showInt now,
                         name = ''Imported Transcript'',
                         courses = parsedCourses,
                         gpa = calculateSemesterGPA (st_mode s) parsedCourses\<rparr>],
                   st_status := Complete\<rparr>
             else
               s1\<lparr>st_errorMessage :=
                     Some ''Could not detect any courses. Please try a clearer image.'',
                   st_status := ErrorStatus\<rparr>
         | Inl err \<Rightarrow>
             s1\<lparr>st_errorMessage := Some ''Failed to process image. Ensure API Key is set.'',
                 st_status := ErrorStatus\<rparr>)"

text \<open>
  \<open>handleGenerateStrategy\<close> and \<open>handleFindResources\<close>: the call sites of the two
  service functions, each with its own \<open>try\<close>/\<open>catch\<close>.
\<close>

definition handleGenerateStrategy :: "Thrown + AIAnalysisResult \<Rightarrow> AppState \<Rightarrow> AppState" where
  "handleGenerateStrategy outcome s =
     (let s1 = s\<lparr>st_status := Thinking, st_analysis := None\<rparr>
      in case outcome of
           Inr result \<Rightarrow> s1\<lparr>st_analysis := Some result, st_status := Complete\<rparr>
         | Inl e \<Rightarrow>
             s1\<lparr>st_errorMessage := Some ''Strategy generation failed.'',
                 st_status := ErrorStatus\<rparr>)"

definition handleFindResources ::
  "Course \<Rightarrow> Thrown + StudyResource list \<Rightarrow> AppState \<Rightarrow> AppState" where
  "handleFindResources course outcome s =
     (if title course = [] then s
      else
        let s1 = s\<lparr>st_activeResourceCourse := Some course, st_foundResources := [],
                   st_resourceModalOpen := True, st_status := Searching\<rparr>
        in case outcome of
             Inr resources \<Rightarrow> s1\<lparr>st_foundResources := resources, st_status := Complete\<rparr>
           | Inl e \<Rightarrow>
               s1\<lparr>st_errorMessage := Some ''Could not find resources.'',
                   st_status := ErrorStatus\<rparr>)"

text \<open>
  The user actions and completed calls that update the state. A course table belongs to
  the semester shown at a position of the list; its \<open>onUpdate\<close> is
  \<open>handleUpdateCourses(sem.id, courses)\<close> and its scale is the active one. The integers
  are readings of \<open>Date.now()\<close>.
\<close>

datatype Action =
    SetMode CalculationMode
  | AddSemester int
  | RemoveSemester string
  | RenameSemester string string
  | AddCourse nat int
  | ChangeCourse nat string FieldChange
  | RemoveCourse nat string
  | TranscriptUpload int "Thrown + Course list"
  | GenerateStrategy "Thrown + AIAnalysisResult"
  | FindResources Course "Thrown + StudyResource list"

definition onUpdate :: "nat \<Rightarrow> (Course list \<Rightarrow> Thrown + Course list) \<Rightarrow> AppState \<Rightarrow> AppState" where
  "onUpdate k edit s =
     (if k < length (st_semesters s) then
        (case edit (courses (st_semesters s ! k)) of
           Inl e \<Rightarrow> s
         | Inr cs \<Rightarrow>
             s\<lparr>st_semesters :=
                 handleUpdateCourses (st_mode s) (id_semester (st_semesters s ! k)) cs
                   (st_semesters s)\<rparr>)
      else s)"

fun applyAction :: "AppState \<Rightarrow> Action \<Rightarrow> AppState" where
  "applyAction s (SetMode m) = s\<lparr>st_mode := m\<rparr>"
| "applyAction s (AddSemester now) = s\<lparr>st_semesters := addSemester now (st_semesters s)\<rparr>"
| "applyAction s (RemoveSemester i) = s\<lparr>st_semesters := removeSemester i (st_semesters s)\<rparr>"
| "applyAction s (RenameSemester i val) = s\<lparr>st_semesters := renameSemester i val (st_semesters s)\<rparr>"
| "applyAction s (AddCourse k now) = onUpdate k (handleAddCourse now (activeScale (st_mode s))) s"
| "applyAction s (ChangeCourse k i change) = onUpdate k (\<lambda>cs. Inr (handleChange i change cs)) s"
| "applyAction s (RemoveCourse k i) = onUpdate k (\<lambda>cs. Inr (handleRemove i cs)) s"
| "applyAction s (TranscriptUpload now outcome) = handleTranscriptUpload now outcome s"
| "applyAction s (GenerateStrategy outcome) = handleGenerateStrategy outcome s"
| "applyAction s (FindResources course outcome) = handleFindResources course outcome s"

definition run :: "AppState \<Rightarrow> Action list \<Rightarrow> AppState" where
  "run s actions = foldl applyAction s actions"


section \<open>The credit-weighted mean, as the specification words it\<close>

text \<open>
  The specification speaks of all recorded courses, of the total grade points (the sum
  over the courses of point times credits) and of the total credits. These definitions
  follow those words twice: with the sums taken in the arithmetic of the program, course
  by course from 0, and with exact sums of the exact values of the numbers.
\<close>

definition allCourses :: "Semester list \<Rightarrow> Course list" where
  "allCourses semesters = concat (map courses semesters)"

definition totalGradePoints :: "CalculationMode \<Rightarrow> Course list \<Rightarrow> number" where
  "totalGradePoints mode cs = foldl (\<lambda>sum c. sum + getPoint (grade c) mode * credits c) 0 cs"

definition totalCreditsOf :: "Course list \<Rightarrow> number" where
  "totalCreditsOf cs = foldl (\<lambda>sum c. sum + credits c) 0 cs"

definition exactValue :: "number \<Rightarrow> rat" where
  "exactValue x = (case x of Finite r \<Rightarrow> r | PosInf \<Rightarrow> 0 | NegInf \<Rightarrow> 0 | NaN \<Rightarrow> 0)"

definition exactGradePoints :: "CalculationMode \<Rightarrow> Course list \<Rightarrow> rat" where
  "exactGradePoints mode cs =
     sum_list (map (\<lambda>c. exactValue (getPoint (grade c) mode) * exactValue (credits c)) cs)"

definition exactCredits :: "Course list \<Rightarrow> rat" where
  "exactCredits cs = sum_list (map (\<lambda>c. exactValue (credits c)) cs)"

text \<open>Rounding to two decimals: the nearest multiple of 0.01, a tie away from zero.\<close>

definition roundHundredth :: "rat \<Rightarrow> rat" where
  "roundHundredth x =
     (if x < 0 then - (of_int \<lfloor>- x * 100 + 1 / 2\<rfloor> / 100)
      else of_int \<lfloor>x * 100 + 1 / 2\<rfloor> / 100)"


section \<open>Notions used to state the properties of the service wrappers\<close>

text \<open>
  The elements of a list in the order of their first occurrence: walking the list, an
  element is kept when it has not been seen before.
\<close>

fun firstOccurrencesFrom :: "'a set \<Rightarrow> 'a list \<Rightarrow> 'a list" where
  "firstOccurrencesFrom seen [] = []"
| "firstOccurrencesFrom seen (x # xs) =
     (if x \<in> seen then firstOccurrencesFrom seen xs
      else x # firstOccurrencesFrom (insert x seen) xs)"

definition firstOccurrences :: "'a list \<Rightarrow> 'a list" where
  "firstOccurrences xs = firstOccurrencesFrom {} xs"

text \<open>
  The chunks that \<open>findStudyResources\<close> turns into resources are those with a truthy
  \<open>uri\<close> and a truthy \<open>title\<close>; these are their uris, in the order of the chunks.
\<close>

definition usable :: "GroundingChunk \<Rightarrow> bool" where
  "usable chunk \<longleftrightarrow> truthy (chunkUri chunk) \<and> truthy (chunkTitle chunk)"

definition usableUris :: "GroundingChunk list \<Rightarrow> string list" where
  "usableUris chunks = map (\<lambda>chunk. the (chunkUri chunk)) (filter usable chunks)"

text \<open>
  The index of the first input chunk that holds a uri, and the property that a list of
  uris appears in the order of those indices.
\<close>

definition firstChunkIndex :: "string \<Rightarrow> GroundingChunk list \<Rightarrow> int" where
  "firstChunkIndex u chunks = findIndex (\<lambda>chunk. chunkUri chunk = Some u) chunks"

definition inFirstOccurrenceOrder :: "string list \<Rightarrow> GroundingChunk list \<Rightarrow> bool" where
  "inFirstOccurrenceOrder us chunks \<longleftrightarrow>
     sorted_wrt (<) (map (\<lambda>u. firstChunkIndex u chunks) us)"

text \<open>The uris of a returned resource list (none when the call threw).\<close>

definition resultUris :: "Thrown + StudyResource list \<Rightarrow> string list" where
  "resultUris r = (case r of Inl e \<Rightarrow> [] | Inr rs \<Rightarrow> map uri rs)"




section \<open>Notions used to state the properties of the application state\<close>

text \<open>
  The cached GPA of a semester is up to date for a mode when it equals
  \<open>calculateSemesterGPA\<close> of the semester's courses in that mode.
\<close>

definition gpaCached :: "CalculationMode \<Rightarrow> Semester \<Rightarrow> bool" where
  "gpaCached mode sem \<longleftrightarrow> gpa sem = calculateSemesterGPA mode (courses sem)"

text \<open>The actions that switch the calculation mode.\<close>

fun isSetMode :: "Action \<Rightarrow> bool" where
  "isSetMode (SetMode m) = True"
| "isSetMode a = False"


section \<open>Example data\<close>

definition exampleSemester :: Semester where
  "exampleSemester =
     \<lparr>id_semester = ''sem-1'', name = ''Semester 1'',
      courses =
        [\<lparr>id_course = ''1'', code = ''CS101'', title = ''Intro to Computer Science'',
          credits = lit 1, grade = ''A''\<rparr>,
         \<lparr>id_course = ''2'', code = ''MATH101'', title = ''Calculus I'',
          credits = lit 2, grade = ''B''\<rparr>],
      gpa = 0\<rparr>"

text \<open>A parsed reply with missing, empty and zero fields, and a complete element.\<close>

definition exampleRawData :: "RawCourse list" where
  "exampleRawData =
     [\<lparr>raw_code = None, raw_title = Some [], raw_credits = Some 0, raw_grade = None\<rparr>,
      \<lparr>raw_code = Some ''CS101'', raw_title = None, raw_credits = Some (lit 4),
        raw_grade = Some ''A''\<rparr>]"

text \<open>
  Grounding chunks in which the first chunk of a uri has no title, and a stand-in for
  \<open>new URL(u).hostname\<close> on such inputs: the text between \<open>https://\<close> and the next
  slash, a \<open>TypeError\<close> for any other string.
\<close>

definition exampleChunks :: "GroundingChunk list" where
  "exampleChunks =
     [\<lparr>web = Some \<lparr>web_uri = Some ''https://a.edu/notes'', web_title = None\<rparr>\<rparr>,
      \<lparr>web = Some \<lparr>web_uri = Some ''https://b.edu/video'', web_title = Some ''Video''\<rparr>\<rparr>,
      \<lparr>web = Some \<lparr>web_uri = Some ''https://a.edu/notes'', web_title = Some ''Notes''\<rparr>\<rparr>,
      \<lparr>web = None\<rparr>,
      \<lparr>web = Some \<lparr>web_uri = Some ''https://b.edu/video'', web_title = Some ''Video again''\<rparr>\<rparr>]"

definition exampleHostname :: "string \<Rightarrow> Thrown + string" where
  "exampleHostname u =
     (if take 8 u = ''https://'' then Inr (takeWhile (\<lambda>c. c \<noteq> CHR ''/'') (drop 8 u))
      else Inl TypeError)"


text \<open>
  Runs of the application from its initial state: with a switch of the mode between two
  edits, and with a negative number typed into a credits input.
\<close>

definition exampleActions :: "Action list" where
  "exampleActions = [AddCourse 0 1000, AddSemester 2000, SetMode Standard5, AddCourse 1 3000]"

definition negativeCreditsActions :: "Action list" where
  "negativeCreditsActions = [AddCourse 0 1000, ChangeCourse 0 ''new-1000'' (creditsChange ''-5'')]"

text \<open>A semester whose exact weighted mean lies just above a tie of the rounding.\<close>

definition tieSemester :: Semester where
  "tieSemester =
     \<lparr>id_semester = ''sem-1'', name = ''Semester 1'',
      courses =
        [\<lparr>id_course = ''1'', code = ''CS101'', title = ''Intro to Computer Science'',
          credits = lit 3, grade = ''A''\<rparr>,
         \<lparr>id_course = ''2'', code = ''ENG101'', title = ''Academic Writing'',
          credits = lit 1, grade = ''A-''\<rparr>],
      gpa = 0\<rparr>"


section \<open>Evaluating numbers\<close>

lemma floor_rat_numeral [simp]: "\<lfloor>numeral a / numeral b :: rat\<rfloor> = numeral a div numeral b"
  by (metis floor_divide_of_int_eq of_int_numeral)

lemma floor_half: "\<lfloor>1 / 2 :: rat\<rfloor> = 0"
  by (simp add: floor_eq_iff)

lemmas number_eval =
  round64_def nearest64_def exponent64_def roundHalfEven_def pow2_def floorLog2.simps lit_def
  zero_number_def

lemma lit_small:
  "lit 0 = Finite 0" "lit 1 = Finite 1" "lit 2 = Finite 2" "lit 3 = Finite 3"
  "lit 4 = Finite 4" "lit 5 = Finite 5"
  by (simp_all add: number_eval)

lemma lit_tenths:
  "lit (37 / 10) = Finite (4165829655317709 / 1125899906842624)"
  by (simp add: number_eval)

text \<open>
  The rounding is to a double nearest to the exact value: \<open>floorLog2\<close> is the binary
  exponent, the scaled value has a 53-bit integer part in the normal range, and the result
  is within half a unit of the last place.
\<close>

lemma pow2_powi: "pow2 k = 2 powi k"
  by (simp add: pow2_def power_int_def inverse_eq_divide power_one_over)

lemma pow2_pos: "0 < pow2 k"
  by (simp add: pow2_powi)

lemma pow2_Suc: "pow2 (k + 1) = 2 * pow2 k"
  by (simp add: pow2_powi power_int_add)

lemma pow2_pred: "pow2 (k - 1) = pow2 k / 2"
  using pow2_Suc [of "k - 1"] by simp

lemma floorLog2_bounds:
  "0 < a \<Longrightarrow> pow2 (floorLog2 a) \<le> a \<and> a < pow2 (floorLog2 a + 1)"
proof (induction a rule: floorLog2.induct)
  case (1 a)
  show ?case
  proof (cases "2 \<le> a")
    case True
    with 1 have ih: "pow2 (floorLog2 (a / 2)) \<le> a / 2 \<and> a / 2 < pow2 (floorLog2 (a / 2) + 1)"
      by simp
    from True 1(3) have e: "floorLog2 a = floorLog2 (a / 2) + 1"
      by (simp add: floorLog2.simps [of a])
    have "pow2 (floorLog2 (a / 2) + 1 + 1) = 2 * (2 * pow2 (floorLog2 (a / 2)))"
      by (simp only: pow2_Suc)
    with ih show ?thesis unfolding e by (simp add: pow2_Suc)
  next
    case big: False
    show ?thesis
    proof (cases "a < 1")
      case True
      with 1 big have ih: "pow2 (floorLog2 (a * 2)) \<le> a * 2 \<and> a * 2 < pow2 (floorLog2 (a * 2) + 1)"
        by simp
      from True big 1(3) have e: "floorLog2 a = floorLog2 (a * 2) - 1"
        by (simp add: floorLog2.simps [of a])
      from ih show ?thesis unfolding e by (simp add: pow2_pred pow2_Suc)
    next
      case False
      with big 1(3) have "floorLog2 a = 0" by (simp add: floorLog2.simps [of a])
      with False big show ?thesis by (simp add: pow2_def)
    qed
  qed
qed

lemma roundHalfEven_near: "\<bar>of_int (roundHalfEven y) - y\<bar> \<le> 1 / 2"
proof -
  have f: "of_int \<lfloor>y\<rfloor> \<le> y" "y < of_int \<lfloor>y\<rfloor> + 1" by linarith+
  consider "y - of_int \<lfloor>y\<rfloor> < 1 / 2" | "1 / 2 < y - of_int \<lfloor>y\<rfloor>"
    | "y - of_int \<lfloor>y\<rfloor> = 1 / 2" by linarith
  then show ?thesis
  proof cases
    case 1
    then have "roundHalfEven y = \<lfloor>y\<rfloor>" by (simp add: roundHalfEven_def)
    with 1 f show ?thesis by simp
  next
    case 2
    then have "roundHalfEven y = \<lfloor>y\<rfloor> + 1" by (simp add: roundHalfEven_def)
    with 2 f show ?thesis by simp
  next
    case 3
    then have "roundHalfEven y = \<lfloor>y\<rfloor> \<or> roundHalfEven y = \<lfloor>y\<rfloor> + 1"
      by (simp add: roundHalfEven_def)
    with 3 show ?thesis by auto
  qed
qed

lemma nearest64_near:
  "\<bar>nearest64 a - a\<bar> \<le> pow2 (exponent64 a) / 2"
proof -
  let ?p = "pow2 (exponent64 a)"
  have p: "0 < ?p" by (rule pow2_pos)
  have "\<bar>of_int (roundHalfEven (a / ?p)) - a / ?p\<bar> \<le> 1 / 2" by (rule roundHalfEven_near)
  then have "\<bar>of_int (roundHalfEven (a / ?p)) - a / ?p\<bar> * ?p \<le> 1 / 2 * ?p"
    using p by (simp only: mult_le_cancel_right_pos)
  moreover have "\<bar>of_int (roundHalfEven (a / ?p)) - a / ?p\<bar> * ?p
      = \<bar>(of_int (roundHalfEven (a / ?p)) - a / ?p) * ?p\<bar>"
    using p by (simp add: abs_mult)
  moreover have "(of_int (roundHalfEven (a / ?p)) - a / ?p) * ?p = nearest64 a - a"
    using p by (simp add: nearest64_def left_diff_distrib)
  ultimately show ?thesis by simp
qed

lemma significand_53:
  assumes "0 < a" and "- 1074 \<le> floorLog2 a - 52"
  shows "2 ^ 52 \<le> a / pow2 (exponent64 a) \<and> a / pow2 (exponent64 a) < 2 ^ 53"
proof -
  from assms(2) have e: "exponent64 a = floorLog2 a - 52" by (simp add: exponent64_def)
  have b: "pow2 (floorLog2 a) \<le> a \<and> a < pow2 (floorLog2 a + 1)"
    using assms(1) by (rule floorLog2_bounds)
  have s: "pow2 (floorLog2 a) = 2 ^ 52 * pow2 (floorLog2 a - 52)"
    by (simp add: pow2_powi power_int_diff)
  have s': "pow2 (floorLog2 a + 1) = 2 ^ 53 * pow2 (floorLog2 a - 52)"
    by (simp add: pow2_powi power_int_diff power_int_add)
  from b show ?thesis unfolding e s s' using pow2_pos [of "floorLog2 a - 52"]
    by (simp add: field_simps)
qed

text \<open>
  Some doubles: 0.1 and 3.7 are not representable and are replaced by their neighbours,
  \<open>2^53 + 1\<close> is rounded to \<open>2^53\<close>, and a sum can cancel to 0 although the exact sum
  is 1.
\<close>

lemma known_doubles:
  "lit (1 / 10) = Finite (3602879701896397 / 36028797018963968)"
  "lit (37 / 10) = Finite (4165829655317709 / 1125899906842624)"
  "lit 9007199254740993 = Finite 9007199254740992"
  by (simp_all add: number_eval)

lemma cancellation: "(Finite (2 ^ 53) + Finite 1) + Finite (- (2 ^ 53)) = 0"
  by (simp add: number_eval)


section \<open>Running totals\<close>

lemma fold_addCourse:
  "fold (addCourse mode) cs acc =
     (foldl (\<lambda>sum c. sum + getPoint (grade c) mode * credits c) (fst acc) cs,
      foldl (\<lambda>sum c. sum + credits c) (snd acc) cs)"
  by (induction cs arbitrary: acc) (simp_all add: addCourse_def)

lemma fold_semesters:
  "fold (\<lambda>sem acc. fold (addCourse mode) (courses sem) acc) sems acc =
     fold (addCourse mode) (concat (map courses sems)) acc"
  by (induction sems arbitrary: acc) simp_all

lemma cgpaTotals_spec:
  "cgpaTotals mode sems =
     (totalGradePoints mode (allCourses sems), totalCreditsOf (allCourses sems))"
  unfolding cgpaTotals_def fold_semesters
  by (simp add: fold_addCourse totalGradePoints_def totalCreditsOf_def allCourses_def)

lemma toFixed2_zero: "toFixed2 0 = 0"
  by (simp add: toFixed2_def zero_number_def floor_half lit_def round64_def)

lemma round_half_up_near:
  fixes y :: rat
  shows "\<bar>of_int \<lfloor>y + 1 / 2\<rfloor> - y\<bar> \<le> 1 / 2"
proof -
  have "of_int \<lfloor>y + 1 / 2\<rfloor> \<le> y + 1 / 2" by (rule of_int_floor_le)
  moreover have "y + 1 / 2 < of_int \<lfloor>y + 1 / 2\<rfloor> + 1" by linarith
  ultimately show ?thesis by linarith
qed

lemma toFixed2_near:
  assumes "\<bar>r\<bar> < 10 ^ 21"
  shows "\<exists>n::int. toFixed2 (Finite r) = lit (of_int n / 100) \<and> \<bar>of_int n / 100 - r\<bar> \<le> 1 / 200"
proof (cases "r < 0")
  case True
  have "\<bar>of_int \<lfloor>- r * 100 + 1 / 2\<rfloor> - (- r * 100)\<bar> \<le> 1 / 2"
    by (rule round_half_up_near)
  then have "\<bar>of_int (- \<lfloor>- r * 100 + 1 / 2\<rfloor>) / 100 - r\<bar> \<le> 1 / 200"
    by (simp add: abs_if split: if_splits)
  moreover have "toFixed2 (Finite r) = lit (of_int (- \<lfloor>- r * 100 + 1 / 2\<rfloor>) / 100)"
    using True assms by (simp add: toFixed2_def)
  ultimately show ?thesis by blast
next
  case False
  have "\<bar>of_int \<lfloor>r * 100 + 1 / 2\<rfloor> - r * 100\<bar> \<le> 1 / 2"
    by (rule round_half_up_near)
  then have "\<bar>of_int \<lfloor>r * 100 + 1 / 2\<rfloor> / 100 - r\<bar> \<le> 1 / 200"
    by (simp add: abs_if split: if_splits)
  moreover have "toFixed2 (Finite r) = lit (of_int \<lfloor>r * 100 + 1 / 2\<rfloor> / 100)"
    using False assms by (simp add: toFixed2_def)
  ultimately show ?thesis by blast
qed

section \<open>Properties of the grade-point lookup\<close>

lemma find_None_grade:
  "g \<notin> set (map grade_item scale) \<Longrightarrow> find (\<lambda>s. grade_item s = g) scale = None"
  by (induction scale) auto

text \<open>
  Claim C2. For every grade string that is not present in the active scale, and for
  either calculation mode, the grade-point lookup \<open>getPoint\<close> returns 0.
\<close>

theorem getPoint_unrecognized:
  "g \<notin> set (map grade_item (activeScale mode)) \<Longrightarrow> getPoint g mode = 0"
  by (cases mode) (simp_all add: getPoint_def activeScale_def find_None_grade)

theorem getPoint_unrecognized_witness:
  "''E'' \<notin> set (map grade_item (activeScale Standard4)) \<and> getPoint ''E'' Standard4 = 0"
proof -
  have h: "''E'' \<notin> set (map grade_item (activeScale Standard4))"
    by (simp add: activeScale_def SCALE_4_0_def)
  from getPoint_unrecognized [OF h] h show ?thesis by simp
qed

section \<open>Properties of the aggregates\<close>

text \<open>
  Claim C1, in the form that holds of the code. For every list of semesters and either
  mode, the computed overall CGPA is obtained in the arithmetic of doubles: the running
  sum of point times credits over all courses, in order, divided by the running sum of
  the credits, and then rounded by \<open>toFixed(2)\<close>, that is, replaced by the double nearest
  to a multiple of 0.01 that lies within 0.005 of that double quotient; and it is 0 when
  the running sum of the credits is 0.
\<close>

theorem cgpa_weighted_mean:
  "(totalCreditsOf (allCourses sems) = 0 \<longrightarrow> cgpa mode sems = 0) \<and>
   (totalCreditsOf (allCourses sems) \<noteq> 0 \<longrightarrow>
      cgpa mode sems =
        toFixed2 (totalGradePoints mode (allCourses sems) / totalCreditsOf (allCourses sems))) \<and>
   (totalCreditsOf (allCourses sems) \<noteq> 0 \<and>
    totalGradePoints mode (allCourses sems) / totalCreditsOf (allCourses sems) = Finite q \<and>
    \<bar>q\<bar> < 10 ^ 21 \<longrightarrow>
      (\<exists>n::int. cgpa mode sems = lit (of_int n / 100) \<and> \<bar>of_int n / 100 - q\<bar> \<le> 1 / 200))"
proof -
  let ?tp = "totalGradePoints mode (allCourses sems)"
  let ?tc = "totalCreditsOf (allCourses sems)"
  have eq: "cgpa mode sems = (if ?tc = 0 then 0 else toFixed2 (?tp / ?tc))"
    by (simp add: cgpa_def cgpaTotals_spec)
  have "\<exists>n::int. cgpa mode sems = lit (of_int n / 100) \<and> \<bar>of_int n / 100 - q\<bar> \<le> 1 / 200"
    if "?tc \<noteq> 0" and "?tp / ?tc = Finite q" and "\<bar>q\<bar> < 10 ^ 21"
    using that eq toFixed2_near [of q] by simp
  with eq show ?thesis by simp
qed

theorem cgpa_weighted_mean_witness:
  "cgpa Standard4 [exampleSemester] = lit (333 / 100) \<and>
   (\<exists>n::int. cgpa Standard4 [exampleSemester] = lit (of_int n / 100) \<and>
      \<bar>of_int n / 100 - (7505999378950827 / 2251799813685248 :: rat)\<bar> \<le> 1 / 200) \<and>
   cgpa Standard4 [] = 0"
proof -
  let ?q = "7505999378950827 / 2251799813685248 :: rat"
  have tc: "totalCreditsOf (allCourses [exampleSemester]) = Finite 3"
    by (simp add: totalCreditsOf_def allCourses_def exampleSemester_def number_eval)
  have tp: "totalGradePoints Standard4 (allCourses [exampleSemester]) = Finite 10"
    by (simp add: totalGradePoints_def allCourses_def exampleSemester_def getPoint_def
        SCALE_4_0_def number_eval)
  have nz: "totalCreditsOf (allCourses [exampleSemester]) \<noteq> 0"
    by (simp add: tc zero_number_def)
  have d: "totalGradePoints Standard4 (allCourses [exampleSemester])
             / totalCreditsOf (allCourses [exampleSemester]) = Finite ?q"
    by (simp add: tc tp number_eval)
  have r: "toFixed2 (Finite ?q) = lit (333 / 100)"
    by (simp add: toFixed2_def)
  have small: "\<bar>?q\<bar> < 10 ^ 21" by simp
  have z: "totalCreditsOf (allCourses []) = 0"
    by (simp add: totalCreditsOf_def allCourses_def)
  note w = cgpa_weighted_mean [of "[exampleSemester]" Standard4 ?q]
  from w nz d r have c: "cgpa Standard4 [exampleSemester] = lit (333 / 100)"
    by simp
  from w nz d small
  have e: "\<exists>n::int. cgpa Standard4 [exampleSemester] = lit (of_int n / 100) \<and>
      \<bar>of_int n / 100 - ?q\<bar> \<le> 1 / 200"
    by blast
  from cgpa_weighted_mean [of "[]" Standard4 0] z have o: "cgpa Standard4 [] = 0"
    by simp
  from c e o show ?thesis by blast
qed

text \<open>
  The exact quotient rounded to two decimals is not what the program returns: for an A
  with 3 credits and an A- with 1 credit the exact weighted mean of the points is just
  above 3.925, which rounds to 3.93, while the doubles give a quotient just below 3.925
  and \<open>toFixed(2)\<close> gives 3.92.
\<close>

lemma tie_totals:
  "totalGradePoints Standard4 (allCourses [tieSemester]) = Finite (4419157134357299 / 281474976710656)"
  "totalCreditsOf (allCourses [tieSemester]) = Finite 4"
  by (simp_all add: totalGradePoints_def totalCreditsOf_def allCourses_def tieSemester_def
      getPoint_def SCALE_4_0_def number_eval)

lemma tie_cgpa: "cgpa Standard4 [tieSemester] = lit (392 / 100)"
  by (simp add: cgpa_def cgpaTotals_spec tie_totals toFixed2_def number_eval)

theorem cgpa_rounding_counterexample:
  "cgpa Standard4 [tieSemester] = lit (392 / 100) \<and>
   exactValue (cgpa Standard4 [tieSemester]) < 392 / 100 \<and>
   exactGradePoints Standard4 (allCourses [tieSemester]) / exactCredits (allCourses [tieSemester])
     > 3925 / 1000 \<and>
   roundHundredth
     (exactGradePoints Standard4 (allCourses [tieSemester]) / exactCredits (allCourses [tieSemester]))
     = 393 / 100"
proof -
  have q: "exactGradePoints Standard4 (allCourses [tieSemester])
             / exactCredits (allCourses [tieSemester])
           = 17676628537429197 / 4503599627370496"
    by (simp add: exactGradePoints_def exactCredits_def allCourses_def tieSemester_def
        getPoint_def SCALE_4_0_def lit_small lit_tenths exactValue_def)
  show ?thesis
    by (simp add: q tie_cgpa exactValue_def roundHundredth_def number_eval)
qed

text \<open>
  Claim C3. For every list of semesters, the total credits computed for the CGPA are the
  same under the 4.0 mode and the 5.0 mode: the credit total is the sum of the credits of
  the courses, whatever the mode.
\<close>

theorem cgpa_credits_mode_independent:
  "snd (cgpaTotals Standard4 sems) = snd (cgpaTotals Standard5 sems) \<and>
   snd (cgpaTotals mode sems) = totalCreditsOf (allCourses sems)"
  by (simp add: cgpaTotals_spec)

text \<open>
  Claim C7. GPA is the CGPA computation restricted to a single semester: for a state
  with exactly one semester, and either mode, the overall CGPA equals
  \<open>calculateSemesterGPA\<close> of that semester's course list.
\<close>

theorem cgpa_single_semester:
  "cgpa mode [sem] = calculateSemesterGPA mode (courses sem)"
proof (cases "courses sem = []")
  case True
  then show ?thesis
    by (simp add: cgpa_def cgpaTotals_def calculateSemesterGPA_def)
next
  case False
  have "cgpaTotals mode [sem] =
          (foldl (\<lambda>sum c. sum + getPoint (grade c) mode * credits c) 0 (courses sem),
           foldl (\<lambda>sum c. sum + credits c) 0 (courses sem))"
    by (simp add: cgpaTotals_def fold_addCourse)
  with False show ?thesis
    by (simp add: cgpa_def calculateSemesterGPA_def Let_def)
qed

lemma chartDataFrom_empty: "chartDataFrom mode acc sems = [] \<longleftrightarrow> sems = []"
  by (cases sems) (simp_all add: Let_def)

lemma chartDataFrom_last:
  "sems \<noteq> [] \<Longrightarrow>
   cgpa_chart (last (chartDataFrom mode acc sems)) =
     (let t = fold (\<lambda>sem acc. fold (addCourse mode) (courses sem) acc) sems acc
      in toFixed2 (if snd t = 0 then 0 else fst t / snd t))"
proof (induction sems arbitrary: acc)
  case Nil
  then show ?case by simp
next
  case (Cons sem rest)
  show ?case
  proof (cases "rest = []")
    case True
    then show ?thesis by (simp add: Let_def)
  next
    case False
    with Cons.IH [of "fold (addCourse mode) (courses sem) acc"] show ?thesis
      by (simp add: Let_def chartDataFrom_empty)
  qed
qed

text \<open>
  Claim C10. The two cumulative computations agree: for every non-empty list of
  semesters, and either mode, the \<open>cgpa\<close> value of the last entry of \<open>chartData\<close> equals
  the overall CGPA.
\<close>

theorem chartData_last_cgpa:
  "sems \<noteq> [] \<Longrightarrow> cgpa_chart (last (chartData mode sems)) = cgpa mode sems"
  by (simp add: chartData_def chartDataFrom_last cgpa_def cgpaTotals_def Let_def toFixed2_zero)

theorem chartData_last_cgpa_witness:
  "[exampleSemester, exampleSemester] \<noteq> [] \<and>
   cgpa_chart (last (chartData Standard4 [exampleSemester, exampleSemester])) = lit (333 / 100)"
proof -
  have h: "[exampleSemester, exampleSemester] \<noteq> []" by simp
  have t: "cgpaTotals Standard4 [exampleSemester, exampleSemester] = (Finite 20, Finite 6)"
    by (simp add: cgpaTotals_def addCourse_def exampleSemester_def getPoint_def
        SCALE_4_0_def number_eval)
  have "cgpa Standard4 [exampleSemester, exampleSemester] = lit (333 / 100)"
    by (simp add: cgpa_def t toFixed2_def number_eval)
  with chartData_last_cgpa [OF h, of Standard4] show ?thesis by simp
qed

section \<open>Properties of the service wrappers\<close>

lemma digitChar_inj: "a < 10 \<Longrightarrow> b < 10 \<Longrightarrow> digitChar a = digitChar b \<Longrightarrow> a = b"
proof -
  assume a: "a < 10" and b: "b < 10" and e: "digitChar a = digitChar b"
  have "distinct ''0123456789''" by simp
  with a b e show "a = b" by (simp add: digitChar_def nth_eq_iff_index_eq)
qed

lemma digitChar_not_minus: "d < 10 \<Longrightarrow> digitChar d \<noteq> CHR ''-''"
proof
  assume d: "d < 10" and e: "digitChar d = CHR ''-''"
  from d have "''0123456789'' ! d \<in> set ''0123456789''" by (intro nth_mem) simp
  with e show False by (simp add: digitChar_def)
qed

lemma showNat_not_Nil: "showNat n \<noteq> []"
  by (subst showNat.simps) simp

lemma showNat_no_minus: "CHR ''-'' \<notin> set (showNat n)"
proof (induction n rule: showNat.induct)
  case (1 n)
  show ?case
  proof (cases "n < 10")
    case True
    then show ?thesis using digitChar_not_minus [of n] by (subst showNat.simps) auto
  next
    case False
    then have "n mod 10 < 10" by simp
    with False 1 show ?thesis
      using digitChar_not_minus [of "n mod 10"] by (subst showNat.simps) auto
  qed
qed

lemma showNat_inj: "showNat m = showNat n \<Longrightarrow> m = n"
proof (induction m arbitrary: n rule: showNat.induct)
  case (1 m)
  show ?case
  proof (cases "m < 10")
    case mT: True
    show ?thesis
    proof (cases "n < 10")
      case True
      with mT 1(2) show ?thesis
        using digitChar_inj [of m n] by (simp add: showNat.simps [of m] showNat.simps [of n])
    next
      case False
      with mT 1(2) showNat_not_Nil [of "n div 10"] show ?thesis
        by (simp add: showNat.simps [of m] showNat.simps [of n])
    qed
  next
    case mF: False
    show ?thesis
    proof (cases "n < 10")
      case True
      with mF 1(2) showNat_not_Nil [of "m div 10"] show ?thesis
        by (simp add: showNat.simps [of m] showNat.simps [of n])
    next
      case False
      with mF 1(2) have e: "showNat (m div 10) = showNat (n div 10)"
        and d: "digitChar (m mod 10) = digitChar (n mod 10)"
        by (simp_all add: showNat.simps [of m] showNat.simps [of n])
      from 1(1) [OF mF e] have "m div 10 = n div 10" .
      moreover from d have "m mod 10 = n mod 10"
        using digitChar_inj [of "m mod 10" "n mod 10"] by simp
      ultimately show ?thesis by (metis div_mult_mod_eq)
    qed
  qed
qed

lemma suffix_after_minus:
  assumes "CHR ''-'' \<notin> set d1" "CHR ''-'' \<notin> set d2"
    and "s1 @ CHR ''-'' # d1 = s2 @ CHR ''-'' # d2"
  shows "d1 = d2"
proof -
  from assms(3) have "rev d1 @ CHR ''-'' # rev s1 = rev d2 @ CHR ''-'' # rev s2"
    by (metis rev_append rev.simps(2) append_assoc append_Cons append_Nil)
  then have "takeWhile (\<lambda>c. c \<noteq> CHR ''-'') (rev d1 @ CHR ''-'' # rev s1)
           = takeWhile (\<lambda>c. c \<noteq> CHR ''-'') (rev d2 @ CHR ''-'' # rev s2)" by simp
  moreover have "takeWhile (\<lambda>c. c \<noteq> CHR ''-'') (rev d1 @ CHR ''-'' # rev s1) = rev d1"
    using assms(1) by (simp add: takeWhile_tail) (metis set_rev takeWhile_eq_all_conv)
  moreover have "takeWhile (\<lambda>c. c \<noteq> CHR ''-'') (rev d2 @ CHR ''-'' # rev s2) = rev d2"
    using assms(2) by (simp add: takeWhile_tail) (metis set_rev takeWhile_eq_all_conv)
  ultimately show ?thesis by simp
qed

lemma toCourse_id_inj:
  "id_course (toCourse now c i) = id_course (toCourse now c' j) \<Longrightarrow> i = j"
proof -
  assume "id_course (toCourse now c i) = id_course (toCourse now c' j)"
  then have "(''parsed-'' @ showInt (now i)) @ CHR ''-'' # showNat i
           = (''parsed-'' @ showInt (now j)) @ CHR ''-'' # showNat j"
    by (simp add: toCourse_def)
  then have "showNat i = showNat j"
    by (rule suffix_after_minus [OF showNat_no_minus showNat_no_minus])
  then show "i = j" by (rule showNat_inj)
qed


lemma mapCourses_nth:
  "i < length rawData \<Longrightarrow> mapCourses now rawData ! i = toCourse now (rawData ! i) i"
  by (simp add: mapCourses_def)

lemma mapCourses_length: "length (mapCourses now rawData) = length rawData"
  by (simp add: mapCourses_def)

lemma mapCourses_distinct_ids: "distinct (map id_course (mapCourses now rawData))"
proof -
  have "\<forall>i < length rawData. \<forall>j < length rawData. i \<noteq> j \<longrightarrow>
          id_course (mapCourses now rawData ! i) \<noteq> id_course (mapCourses now rawData ! j)"
    using toCourse_id_inj by (auto simp: mapCourses_nth)
  then show ?thesis
    by (simp add: distinct_conv_nth mapCourses_length)
qed

text \<open>
  Claim C9. For every parsed JSON array returned by the AI service, each course produced
  by \<open>parseTranscriptImage\<close> has its missing or falsy fields replaced by defaults:
  \<open>code\<close> becomes "UNKNOWN", \<open>title\<close> becomes "Parsed Course", \<open>credits\<close> becomes 3 (also
  for a parsed value of 0 or \<open>NaN\<close>), \<open>grade\<close> becomes "C"; a field that is present and truthy is
  kept; and the generated course ids are pairwise distinct within one call.
\<close>

theorem parseTranscriptImage_defaults:
  assumes "getAiClient apiKey = Inr ai" and "text \<noteq> []" and "parse text = Inr rawData"
  shows "\<exists>cs. parseTranscriptImage apiKey (Resolved (Some text)) parse now = Inr cs \<and>
           length cs = length rawData \<and>
           (\<forall>i < length rawData.
              code (cs ! i) =
                (case raw_code (rawData ! i) of
                   None \<Rightarrow> ''UNKNOWN'' | Some v \<Rightarrow> if v = [] then ''UNKNOWN'' else v) \<and>
              title (cs ! i) =
                (case raw_title (rawData ! i) of
                   None \<Rightarrow> ''Parsed Course'' | Some v \<Rightarrow> if v = [] then ''Parsed Course'' else v) \<and>
              credits (cs ! i) =
                (case raw_credits (rawData ! i) of
                   None \<Rightarrow> Finite 3
                 | Some v \<Rightarrow> if v = 0 \<or> v = NaN then Finite 3 else v) \<and>
              grade (cs ! i) =
                (case raw_grade (rawData ! i) of
                   None \<Rightarrow> ''C'' | Some v \<Rightarrow> if v = [] then ''C'' else v)) \<and>
           distinct (map id_course cs)"
proof -
  have "parseTranscriptImage apiKey (Resolved (Some text)) parse now
          = Inr (mapCourses now rawData)"
    using assms by (simp add: parseTranscriptImage_def)
  moreover have "\<forall>i < length rawData.
      code (mapCourses now rawData ! i) = orString (raw_code (rawData ! i)) ''UNKNOWN'' \<and>
      title (mapCourses now rawData ! i) = orString (raw_title (rawData ! i)) ''Parsed Course'' \<and>
      credits (mapCourses now rawData ! i) = orNumber (raw_credits (rawData ! i)) (lit 3) \<and>
      grade (mapCourses now rawData ! i) = orString (raw_grade (rawData ! i)) ''C''"
    by (simp add: mapCourses_nth toCourse_def)
  moreover have "orNumber a (lit 3) =
      (case a of None \<Rightarrow> Finite 3 | Some v \<Rightarrow> if v = 0 \<or> v = NaN then Finite 3 else v)" for a
    by (cases a) (simp_all add: orNumber_def falsy_def lit_small)
  ultimately show ?thesis
    using mapCourses_length [of now rawData] mapCourses_distinct_ids [of now rawData]
    by (simp add: orString_def)
qed

theorem parseTranscriptImage_defaults_witness:
  "parseTranscriptImage (Some ''key'') (Resolved (Some ''[...]'')) (\<lambda>t. Inr exampleRawData)
     (\<lambda>i. 1700000000000)
   = Inr [\<lparr>id_course = ''parsed-1700000000000-0'', code = ''UNKNOWN'', title = ''Parsed Course'',
            credits = Finite 3, grade = ''C''\<rparr>,
          \<lparr>id_course = ''parsed-1700000000000-1'', code = ''CS101'', title = ''Parsed Course'',
            credits = Finite 4, grade = ''A''\<rparr>]"
proof -
  have a: "getAiClient (Some ''key'') = Inr ''key''" by (simp add: getAiClient_def)
  have t: "''[...]'' \<noteq> []" by simp
  have p: "(\<lambda>t::string. (Inr exampleRawData :: Thrown + RawCourse list)) ''[...]'' = Inr exampleRawData" by simp
  have e: "parseTranscriptImage (Some ''key'') (Resolved (Some ''[...]'')) (\<lambda>t. Inr exampleRawData)
     (\<lambda>i. 1700000000000)
   = Inr [\<lparr>id_course = ''parsed-1700000000000-0'', code = ''UNKNOWN'', title = ''Parsed Course'',
            credits = Finite 3, grade = ''C''\<rparr>,
          \<lparr>id_course = ''parsed-1700000000000-1'', code = ''CS101'', title = ''Parsed Course'',
            credits = Finite 4, grade = ''A''\<rparr>]"
    by (simp add: parseTranscriptImage_def getAiClient_def mapCourses_def toCourse_def
        exampleRawData_def orString_def orNumber_def falsy_def lit_small zero_number_def
        showInt_def showNat.simps digitChar_def)
  from parseTranscriptImage_defaults [OF a t p, of "\<lambda>i. 1700000000000"] e
  show ?thesis by simp
qed

subsection \<open>Deduplication by first index\<close>

lemma findIndex_none: "\<forall>x \<in> set xs. \<not> P x \<Longrightarrow> findIndex P xs = - 1"
  by (induction xs) simp_all

lemma findIndex_some: "\<exists>x \<in> set xs. P x \<Longrightarrow> 0 \<le> findIndex P xs \<and> findIndex P xs < int (length xs)"
proof (induction xs)
  case Nil
  then show ?case by simp
next
  case (Cons x xs)
  show ?case
  proof (cases "P x")
    case True
    then show ?thesis by simp
  next
    case False
    with Cons.prems have "\<exists>y \<in> set xs. P y" by simp
    from Cons.IH [OF this] False show ?thesis by (simp add: Let_def)
  qed
qed

lemma findIndex_append_none:
  "\<forall>x \<in> set pre. \<not> P x \<Longrightarrow> P v \<Longrightarrow> findIndex P (pre @ v # vs) = int (length pre)"
  by (induction pre) (simp_all add: Let_def)

lemma findIndex_append_some:
  "\<exists>x \<in> set pre. P x \<Longrightarrow> findIndex P (pre @ rest) = findIndex P pre"
proof (induction pre)
  case Nil
  then show ?case by simp
next
  case (Cons x pre)
  show ?case
  proof (cases "P x")
    case True
    then show ?thesis by simp
  next
    case False
    with Cons.prems have "\<exists>y \<in> set pre. P y" by simp
    from Cons.IH [OF this] False show ?thesis by simp
  qed
qed

lemma findIndex_first:
  assumes "P v"
  shows "findIndex P (pre @ v # vs) = int (length pre) \<longleftrightarrow> (\<forall>x \<in> set pre. \<not> P x)"
proof (cases "\<exists>x \<in> set pre. P x")
  case True
  with findIndex_some [OF True] findIndex_append_some [OF True, of "v # vs"]
  show ?thesis by auto
next
  case False
  with findIndex_append_none [of pre P v vs] assms show ?thesis by simp
qed

lemma filterFrom_first_occurrences:
  "a = pre @ vs \<Longrightarrow>
   map key (filterFrom (\<lambda>v i a. findIndex (\<lambda>t. key t = key v) a = int i) a (length pre) vs)
     = firstOccurrencesFrom (key ` set pre) (map key vs)"
proof (induction vs arbitrary: pre)
  case Nil
  then show ?case by simp
next
  case (Cons v vs)
  have a: "a = (pre @ [v]) @ vs" using Cons.prems by simp
  have step: "map key (filterFrom (\<lambda>v i a. findIndex (\<lambda>t. key t = key v) a = int i) a
                 (Suc (length pre)) vs)
              = firstOccurrencesFrom (insert (key v) (key ` set pre)) (map key vs)"
    using Cons.IH [OF a] by simp
  have "(\<forall>x \<in> set pre. key x \<noteq> key v) \<longleftrightarrow> key v \<notin> key ` set pre"
    by (metis image_iff)
  then have first:
    "findIndex (\<lambda>t. key t = key v) a = int (length pre) \<longleftrightarrow> key v \<notin> key ` set pre"
    using findIndex_first [of "\<lambda>t. key t = key v" v pre vs] Cons.prems by simp
  show ?case
  proof (cases "key v \<in> key ` set pre")
    case True
    then have "insert (key v) (key ` set pre) = key ` set pre" by (rule insert_absorb)
    with True first step show ?thesis by simp
  next
    case False
    with first step show ?thesis by simp
  qed
qed

lemma uniqueResources_uris:
  "map uri (uniqueResources resources) = firstOccurrences (map uri resources)"
  using filterFrom_first_occurrences [of resources "[]" resources uri]
  by (simp add: uniqueResources_def filterIndexed_def firstOccurrences_def)

lemma firstOccurrencesFrom_distinct:
  "distinct (firstOccurrencesFrom seen xs) \<and> set (firstOccurrencesFrom seen xs) = set xs - seen"
  by (induction xs arbitrary: seen) auto

lemma firstOccurrences_distinct: "distinct (firstOccurrences xs)"
  by (simp add: firstOccurrences_def firstOccurrencesFrom_distinct)

lemma firstOccurrences_set: "set (firstOccurrences xs) = set xs"
  by (simp add: firstOccurrences_def firstOccurrencesFrom_distinct)

subsection \<open>The resources pushed\<close>

lemma pushResources_usable:
  "usable chunk \<Longrightarrow>
   pushResources hostname (chunk # rest) resources =
     (case hostname (the (chunkUri chunk)) of
        Inl e \<Rightarrow> Inl e
      | Inr host \<Rightarrow>
          pushResources hostname rest
            (resources @ [\<lparr>title_res = the (chunkTitle chunk), uri = the (chunkUri chunk),
                            source = replaceFirst ''www.'' [] host\<rparr>]))"
  by (simp add: usable_def pushResources.simps)

lemma pushResources_skip:
  "\<not> usable chunk \<Longrightarrow>
   pushResources hostname (chunk # rest) resources = pushResources hostname rest resources"
  by (cases "truthy (chunkUri chunk)") (simp_all add: usable_def pushResources.simps)

lemma usableUris_Cons:
  "usableUris (chunk # rest) =
     (if usable chunk then the (chunkUri chunk) # usableUris rest else usableUris rest)"
  by (simp add: usableUris_def)

lemma pushResources_uris:
  "pushResources hostname chunks resources = Inr rs \<Longrightarrow>
   map uri rs = map uri resources @ usableUris chunks"
proof (induction chunks arbitrary: resources)
  case Nil
  then show ?case by (simp add: usableUris_def)
next
  case (Cons chunk rest)
  show ?case
  proof (cases "usable chunk")
    case True
    show ?thesis
    proof (cases "hostname (the (chunkUri chunk))")
      case (Inl e)
      with True Cons.prems show ?thesis by (simp add: pushResources_usable)
    next
      case (Inr host)
      with True Cons.prems have
        "pushResources hostname rest
           (resources @ [\<lparr>title_res = the (chunkTitle chunk), uri = the (chunkUri chunk),
                           source = replaceFirst ''www.'' [] host\<rparr>]) = Inr rs"
        by (simp add: pushResources_usable)
      from Cons.IH [OF this] True show ?thesis by (simp add: usableUris_Cons)
    qed
  next
    case False
    with Cons.prems have "pushResources hostname rest resources = Inr rs"
      by (simp add: pushResources_skip)
    from Cons.IH [OF this] False show ?thesis by (simp add: usableUris_Cons)
  qed
qed

lemma pushResources_throws:
  "(\<exists>e. pushResources hostname chunks resources = Inl e)
     \<longleftrightarrow> (\<exists>u \<in> set (usableUris chunks). isl (hostname u))"
proof (induction chunks arbitrary: resources)
  case Nil
  then show ?case by (simp add: usableUris_def)
next
  case (Cons chunk rest)
  show ?case
  proof (cases "usable chunk")
    case True
    show ?thesis
    proof (cases "hostname (the (chunkUri chunk))")
      case (Inl e)
      with True show ?thesis by (simp add: pushResources_usable usableUris_Cons)
    next
      case (Inr host)
      with True Cons.IH show ?thesis by (simp add: pushResources_usable usableUris_Cons)
    qed
  next
    case False
    with Cons.IH show ?thesis by (simp add: pushResources_skip usableUris_Cons)
  qed
qed

text \<open>
  Claim C8, in the form that holds of the code. For every grounding-chunk list received
  from the AI service,
  \<open>findStudyResources\<close> returns at most 5 study resources, their uris are pairwise
  distinct, and they are the first 5 uris in order of first occurrence among the chunks
  that carry both a uri and a title (none when a uri of such a chunk is not a URL).
\<close>

theorem findStudyResources_top5:
  assumes "getAiClient apiKey = Inr ai"
  shows "\<exists>rs. findStudyResources apiKey (Resolved (Some chunks)) hostname = Inr rs \<and>
           length rs \<le> 5 \<and>
           distinct (map uri rs) \<and>
           map uri rs =
             (if \<exists>u \<in> set (usableUris chunks). isl (hostname u) then []
              else take 5 (firstOccurrences (usableUris chunks)))"
proof (cases "pushResources hostname chunks []")
  case (Inl e)
  then have "\<exists>u \<in> set (usableUris chunks). isl (hostname u)"
    using pushResources_throws [of hostname chunks "[]"] by blast
  with Inl assms show ?thesis by (simp add: findStudyResources_def)
next
  case (Inr resources)
  then have no: "\<not> (\<exists>u \<in> set (usableUris chunks). isl (hostname u))"
    using pushResources_throws [of hostname chunks "[]"] by auto
  from Inr have u: "map uri resources = usableUris chunks"
    using pushResources_uris [of hostname chunks "[]" resources] by simp
  have r: "findStudyResources apiKey (Resolved (Some chunks)) hostname
             = Inr (take 5 (uniqueResources resources))"
    using Inr assms by (simp add: findStudyResources_def)
  have m: "map uri (take 5 (uniqueResources resources))
             = take 5 (firstOccurrences (usableUris chunks))"
    by (simp add: take_map [symmetric] uniqueResources_uris u)
  have d: "distinct (map uri (take 5 (uniqueResources resources)))"
    unfolding m by (rule distinct_take) (rule firstOccurrences_distinct)
  from r m d no show ?thesis by simp
qed

lemma exampleChunks_result:
  "findStudyResources (Some ''key'') (Resolved (Some exampleChunks)) exampleHostname =
     Inr [\<lparr>title_res = ''Video'', uri = ''https://b.edu/video'', source = ''b.edu''\<rparr>,
          \<lparr>title_res = ''Notes'', uri = ''https://a.edu/notes'', source = ''a.edu''\<rparr>]"
  by (simp add: findStudyResources_def getAiClient_def exampleChunks_def exampleHostname_def
      pushResources.simps chunkUri_def chunkTitle_def truthy_def uniqueResources_def
      filterIndexed_def)

theorem findStudyResources_top5_witness:
  "getAiClient (Some ''key'') = Inr ''key'' \<and>
   resultUris (findStudyResources (Some ''key'') (Resolved (Some exampleChunks)) exampleHostname)
     = take 5 (firstOccurrences (usableUris exampleChunks)) \<and>
   usableUris exampleChunks = [''https://b.edu/video'', ''https://a.edu/notes'', ''https://b.edu/video''] \<and>
   firstOccurrences (usableUris exampleChunks) = [''https://b.edu/video'', ''https://a.edu/notes'']"
proof -
  have a: "getAiClient (Some ''key'') = Inr ''key''" by (simp add: getAiClient_def)
  have u: "usableUris exampleChunks
             = [''https://b.edu/video'', ''https://a.edu/notes'', ''https://b.edu/video'']"
    by (simp add: usableUris_def usable_def exampleChunks_def chunkUri_def chunkTitle_def
        truthy_def)
  have h: "\<not> (\<exists>u \<in> set (usableUris exampleChunks). isl (exampleHostname u))"
    by (simp add: u exampleHostname_def)
  have f: "firstOccurrences (usableUris exampleChunks)
             = [''https://b.edu/video'', ''https://a.edu/notes'']"
    by (simp add: u firstOccurrences_def)
  from findStudyResources_top5 [OF a, of exampleChunks exampleHostname] h
  have "resultUris (findStudyResources (Some ''key'') (Resolved (Some exampleChunks))
          exampleHostname) = take 5 (firstOccurrences (usableUris exampleChunks))"
    by (auto simp: resultUris_def)
  with a u f show ?thesis by simp
qed

text \<open>
  The order of first occurrence among all input chunks is not what the result follows: a
  chunk without a title is skipped, so a later chunk with the same uri takes its place.
\<close>

theorem findStudyResources_order_counterexample:
  "resultUris (findStudyResources (Some ''key'') (Resolved (Some exampleChunks)) exampleHostname)
     = [''https://b.edu/video'', ''https://a.edu/notes''] \<and>
   firstChunkIndex ''https://b.edu/video'' exampleChunks = 1 \<and>
   firstChunkIndex ''https://a.edu/notes'' exampleChunks = 0 \<and>
   \<not> inFirstOccurrenceOrder
        (resultUris (findStudyResources (Some ''key'') (Resolved (Some exampleChunks))
           exampleHostname))
        exampleChunks"
proof -
  have b: "firstChunkIndex ''https://b.edu/video'' exampleChunks = 1"
    by (simp add: firstChunkIndex_def exampleChunks_def chunkUri_def)
  have a: "firstChunkIndex ''https://a.edu/notes'' exampleChunks = 0"
    by (simp add: firstChunkIndex_def exampleChunks_def chunkUri_def)
  from a b show ?thesis
    by (simp add: exampleChunks_result resultUris_def inFirstOccurrenceOrder_def)
qed




section \<open>Properties of the application state\<close>

lemma gpaCached_empty: "gpaCached mode \<lparr>id_semester = i, name = n, courses = [], gpa = 0\<rparr>"
  by (simp add: gpaCached_def calculateSemesterGPA_def)

lemma handleUpdateCourses_cached:
  "list_all (gpaCached mode) sems \<Longrightarrow>
   list_all (gpaCached mode) (handleUpdateCourses mode semId cs sems)"
  by (induction sems) (simp_all add: handleUpdateCourses_def gpaCached_def)

lemma addSemester_cached:
  "list_all (gpaCached mode) sems \<Longrightarrow> list_all (gpaCached mode) (addSemester now sems)"
  by (simp add: addSemester_def gpaCached_empty)

lemma removeSemester_cached:
  "list_all (gpaCached mode) sems \<Longrightarrow> list_all (gpaCached mode) (removeSemester i sems)"
  by (induction sems) (simp_all add: removeSemester_def)

lemma renameSemester_cached:
  "list_all (gpaCached mode) sems \<Longrightarrow> list_all (gpaCached mode) (renameSemester i val sems)"
  by (induction sems) (simp_all add: renameSemester_def gpaCached_def)

lemma onUpdate_cached:
  "list_all (gpaCached (st_mode s)) (st_semesters s) \<Longrightarrow>
   st_mode (onUpdate k edit s) = st_mode s \<and>
   list_all (gpaCached (st_mode s)) (st_semesters (onUpdate k edit s))"
  by (simp add: onUpdate_def handleUpdateCourses_cached split: sum.splits)

lemma handleTranscriptUpload_cached:
  "list_all (gpaCached (st_mode s)) (st_semesters s) \<Longrightarrow>
   st_mode (handleTranscriptUpload now outcome s) = st_mode s \<and>
   list_all (gpaCached (st_mode s)) (st_semesters (handleTranscriptUpload now outcome s))"
  by (simp add: handleTranscriptUpload_def Let_def gpaCached_def split: sum.splits)

lemma applyAction_cached:
  "\<not> isSetMode a \<Longrightarrow> list_all (gpaCached (st_mode s)) (st_semesters s) \<Longrightarrow>
   st_mode (applyAction s a) = st_mode s \<and>
   list_all (gpaCached (st_mode s)) (st_semesters (applyAction s a))"
proof (cases a)
  case (TranscriptUpload now outcome)
  assume "list_all (gpaCached (st_mode s)) (st_semesters s)"
  with TranscriptUpload show ?thesis by (simp add: handleTranscriptUpload_cached)
next
  case (GenerateStrategy outcome)
  assume "list_all (gpaCached (st_mode s)) (st_semesters s)"
  with GenerateStrategy show ?thesis
    by (simp add: handleGenerateStrategy_def Let_def split: sum.splits)
next
  case (FindResources course outcome)
  assume "list_all (gpaCached (st_mode s)) (st_semesters s)"
  with FindResources show ?thesis
    by (simp add: handleFindResources_def Let_def split: sum.splits)
qed (simp_all add: addSemester_cached removeSemester_cached renameSemester_cached
    onUpdate_cached)

lemma run_cached:
  "list_all (\<lambda>a. \<not> isSetMode a) actions \<Longrightarrow>
   list_all (gpaCached (st_mode s)) (st_semesters s) \<Longrightarrow>
   st_mode (run s actions) = st_mode s \<and>
   list_all (gpaCached (st_mode s)) (st_semesters (run s actions))"
proof (induction actions arbitrary: s)
  case Nil
  then show ?case by (simp add: run_def)
next
  case (Cons a actions)
  from Cons.prems have a: "\<not> isSetMode a" and rest: "list_all (\<lambda>a. \<not> isSetMode a) actions"
    by simp_all
  from applyAction_cached [OF a Cons.prems(2)]
  have m: "st_mode (applyAction s a) = st_mode s"
    and c: "list_all (gpaCached (st_mode (applyAction s a))) (st_semesters (applyAction s a))" by simp_all
  from Cons.IH [OF rest c] m show ?case by (simp add: run_def)
qed

lemma handleUpdateCourses_nth:
  "i < length sems \<Longrightarrow>
   handleUpdateCourses mode semId cs sems ! i =
     (if id_semester (sems ! i) = semId
      then (sems ! i)\<lparr>courses := cs, gpa := calculateSemesterGPA mode cs\<rparr>
      else sems ! i)"
  by (simp add: handleUpdateCourses_def)

lemma call_sites_catch:
  "st_errorMessage (handleGenerateStrategy (Inl e) s) = Some ''Strategy generation failed.'' \<and>
   st_status (handleGenerateStrategy (Inl e) s) = ErrorStatus \<and>
   (title course \<noteq> [] \<longrightarrow>
      st_errorMessage (handleFindResources course (Inl e) s) = Some ''Could not find resources.'' \<and>
      st_status (handleFindResources course (Inl e) s) = ErrorStatus)"
  by (simp add: handleGenerateStrategy_def handleFindResources_def Let_def)

text \<open>
  What \<open>handleUpdateCourses\<close> does to each semester: the semesters with the given id
  get the new courses and the GPA of those courses in the current mode, with id and name
  kept, and the other semesters are left as they are. While no action switches the mode,
  every cached \<open>gpa\<close> stays up to date.
\<close>

lemma handleUpdateCourses_effect:
  "length (handleUpdateCourses mode semId cs sems) = length sems \<and>
   (\<forall>i < length sems.
      id_semester (handleUpdateCourses mode semId cs sems ! i) = id_semester (sems ! i) \<and>
      name (handleUpdateCourses mode semId cs sems ! i) = name (sems ! i) \<and>
      (id_semester (sems ! i) = semId \<longrightarrow>
         courses (handleUpdateCourses mode semId cs sems ! i) = cs \<and>
         gpa (handleUpdateCourses mode semId cs sems ! i) = calculateSemesterGPA mode cs) \<and>
      (id_semester (sems ! i) \<noteq> semId \<longrightarrow>
         handleUpdateCourses mode semId cs sems ! i = sems ! i))"
  by (simp add: handleUpdateCourses_nth handleUpdateCourses_def)

lemma initialState_cached:
  "list_all (gpaCached (st_mode initialState)) (st_semesters initialState)"
  by (simp add: initialState_def gpaCached_empty)

lemma exampleActions_run:
  "st_mode (run initialState exampleActions) = Standard5 \<and>
   st_semesters (run initialState exampleActions) =
     [\<lparr>id_semester = ''sem-1'', name = ''Semester 1'',
       courses = [\<lparr>id_course = ''new-1000'', code = [], title = [], credits = Finite 3,
                   grade = ''A''\<rparr>],
       gpa = Finite 4\<rparr>,
      \<lparr>id_semester = ''sem-2000'', name = ''Semester 2'',
       courses = [\<lparr>id_course = ''new-3000'', code = [], title = [], credits = Finite 3,
                   grade = ''A''\<rparr>],
       gpa = Finite 5\<rparr>]"
  by (simp add: run_def exampleActions_def initialState_def onUpdate_def handleAddCourse_def
      activeScale_def SCALE_4_0_def SCALE_5_0_def handleUpdateCourses_def addSemester_def
      showInt_def showNat.simps digitChar_def calculateSemesterGPA_def getPoint_def
      toFixed2_def number_eval)

lemma exampleActions_edit:
  "map gpa (st_semesters (applyAction (run initialState exampleActions)
      (ChangeCourse 0 ''new-1000'' (ChangeCode ''CS101'')))) = [Finite 5, Finite 5]"
  by (simp add: exampleActions_run onUpdate_def handleChange_def handleUpdateCourses_def
      calculateSemesterGPA_def getPoint_def SCALE_5_0_def toFixed2_def number_eval)

text \<open>
  Claim C4. Whenever a semester's course list changes via \<open>handleUpdateCourses\<close>, that
  semester's cached \<open>gpa\<close> is recomputed to equal \<open>calculateSemesterGPA\<close> of the new course
  list, and every semester is in that state after every state-updating operation that
  touches courses. The code misses the second part: a switch of the calculation mode
  recomputes no cached \<open>gpa\<close>. After a course is added to the first semester on the 4.0
  scale, the mode is switched and a course is added to a second semester, the first
  semester still caches 4 while its GPA on the 5.0 scale is 5; editing the code of its
  course, which changes no grade and no credits, then turns the cached value into 5.
\<close>

theorem stale_gpa_after_mode_switch:
  "gpa (st_semesters (run initialState exampleActions) ! 0) = Finite 4 \<and>
   calculateSemesterGPA (st_mode (run initialState exampleActions))
     (courses (st_semesters (run initialState exampleActions) ! 0)) = Finite 5 \<and>
   \<not> list_all (gpaCached (st_mode (run initialState exampleActions)))
        (st_semesters (run initialState exampleActions)) \<and>
   gpa (st_semesters (applyAction (run initialState exampleActions)
          (ChangeCourse 0 ''new-1000'' (ChangeCode ''CS101''))) ! 0) = Finite 5"
proof -
  have c: "calculateSemesterGPA Standard5
             [\<lparr>id_course = ''new-1000'', code = [], title = [], credits = Finite 3,
               grade = ''A''\<rparr>] = Finite 5"
    by (simp add: calculateSemesterGPA_def getPoint_def SCALE_5_0_def toFixed2_def number_eval)
  have e: "gpa (st_semesters (applyAction (run initialState exampleActions)
             (ChangeCourse 0 ''new-1000'' (ChangeCode ''CS101''))) ! 0) = Finite 5"
    using exampleActions_edit
    by (simp add: exampleActions_run onUpdate_def handleUpdateCourses_def)
  from c e show ?thesis
    by (simp add: exampleActions_run gpaCached_def)
qed

text \<open>
  Claim C5. Every operation that creates or edits a course should keep credits
  non-negative. The credits input declares \<open>min="0"\<close>, but its handler stores whatever
  integer \<open>parseInt\<close> reads: typing "-5" into the credits field of a fresh course leaves
  the course with -5 credits.
\<close>

theorem negative_credits_reachable:
  "parseInt ''-5'' = Finite (- 5) \<and>
   creditsChange ''-5'' = ChangeCredits (Finite (- 5)) \<and>
   map (\<lambda>sem. map credits (courses sem)) (st_semesters (run initialState negativeCreditsActions))
     = [[Finite (- 5)]]"
proof -
  have p: "parseInt ''-5'' = Finite (- 5)"
    by (simp add: parseInt_def isWhiteSpace_def digitValue_def Let_def number_eval)
  then have c: "creditsChange ''-5'' = ChangeCredits (Finite (- 5))"
    by (simp add: creditsChange_def falsy_def zero_number_def)
  have "map (\<lambda>sem. map credits (courses sem))
          (st_semesters (run initialState negativeCreditsActions)) = [[Finite (- 5)]]"
    by (simp add: run_def negativeCreditsActions_def c initialState_def onUpdate_def
        handleAddCourse_def activeScale_def SCALE_4_0_def handleUpdateCourses_def
        handleChange_def showInt_def showNat.simps digitChar_def)
  with p c show ?thesis by simp
qed

end
